theory Spec2Isabelle
  imports Main
begin

section \<open>JavaScript values and errors\<close>

text \<open>
  A value read from configuration or from a response field is a string or
  \<^verbatim>\<open>undefined\<close>: \<open>string option\<close>.  JavaScript's truthiness test on such a value
  (\<^verbatim>\<open>!x\<close>, \<^verbatim>\<open>x || y\<close>, \<^verbatim>\<open>if (x)\<close>) is false for \<^verbatim>\<open>undefined\<close> and for the empty string.
  Strings are lists of characters; the messages considered are ASCII.
\<close>

definition truthy :: "string option \<Rightarrow> bool" where
  "truthy v = (case v of None \<Rightarrow> False | Some s \<Rightarrow> s \<noteq> [])"

text \<open>
  The fields of a thrown error that the code inspects: \<^verbatim>\<open>error.response?.status\<close>,
  \<^verbatim>\<open>error.code\<close>, \<^verbatim>\<open>error.response?.data?.error?.message\<close> and \<^verbatim>\<open>error.message\<close>.
\<close>

record js_error =
  err_status :: "nat option"
  err_code :: "string option"
  err_server_message :: "string option"
  err_message :: string

text \<open>\<^verbatim>\<open>new Error(msg)\<close>: no response, no code.\<close>

definition new_Error :: "string \<Rightarrow> js_error" where
  "new_Error msg =
     \<lparr>err_status = None, err_code = None, err_server_message = None, err_message = msg\<rparr>"

section \<open>Strings\<close>

definition upper_chars :: string where
  "upper_chars = ''ABCDEFGHIJKLMNOPQRSTUVWXYZ''"

definition lower_chars :: string where
  "lower_chars = ''abcdefghijklmnopqrstuvwxyz''"

definition digit_chars :: string where
  "digit_chars = ''0123456789''"

definition toLowerChar :: "char \<Rightarrow> char" where
  "toLowerChar c = (case map_of (zip upper_chars lower_chars) c of Some d \<Rightarrow> d | None \<Rightarrow> c)"

definition toUpperChar :: "char \<Rightarrow> char" where
  "toUpperChar c = (case map_of (zip lower_chars upper_chars) c of Some d \<Rightarrow> d | None \<Rightarrow> c)"

definition toLowerCase :: "string \<Rightarrow> string" where
  "toLowerCase s = map toLowerChar s"

definition toUpperCase :: "string \<Rightarrow> string" where
  "toUpperCase s = map toUpperChar s"

text \<open>
  White space as \<^verbatim>\<open>trim\<close> and \<^verbatim>\<open>\s\<close> see it, and the word characters of \<^verbatim>\<open>\w\<close>.
  Strings are ASCII: the white space beyond ASCII that \<^verbatim>\<open>trim\<close> and \<^verbatim>\<open>\s\<close> also accept
  (U+00A0, U+FEFF and the Unicode space separators) is outside the model.
\<close>

definition is_space :: "char \<Rightarrow> bool" where
  "is_space c = (c \<in> set [CHR '' '', CHR 0x09, CHR 0x0A, CHR 0x0B, CHR 0x0C, CHR 0x0D])"

definition is_word :: "char \<Rightarrow> bool" where
  "is_word c = (c \<in> set (upper_chars @ lower_chars @ digit_chars @ ''_''))"

definition trim :: "string \<Rightarrow> string" where
  "trim s = rev (dropWhile is_space (rev (dropWhile is_space s)))"

definition startsWith :: "string \<Rightarrow> string \<Rightarrow> bool" where
  "startsWith s p = (take (length p) s = p)"

text \<open>\<^verbatim>\<open>xs.slice(-n)\<close>: the last \<open>n\<close> elements; \<^verbatim>\<open>xs.join(sep)\<close>.\<close>

definition slice_last :: "nat \<Rightarrow> 'a list \<Rightarrow> 'a list" where
  "slice_last n xs = drop (length xs - n) xs"

fun join :: "string \<Rightarrow> string list \<Rightarrow> string" where
  "join sep [] = []"
| "join sep [x] = x"
| "join sep (x # y # ys) = x @ sep @ join sep (y # ys)"

definition nl :: string where
  "nl = [CHR 0x0A]"

text \<open>\<^verbatim>\<open>parseInt\<close> of a string of decimal digits.\<close>

definition digit_val :: "char \<Rightarrow> nat" where
  "digit_val c = (case map_of (zip digit_chars [0..<10]) c of Some d \<Rightarrow> d | None \<Rightarrow> 0)"

definition parseInt :: "string \<Rightarrow> nat" where
  "parseInt ds = foldl (\<lambda>n c. 10 * n + digit_val c) 0 ds"

section \<open>Regular expressions\<close>

text \<open>
  The regular expressions of the source, as syntax trees, and a backtracking matcher
  with JavaScript's priorities: alternatives are tried left to right, \<open>Star\<close> is greedy
  and an iteration that consumes nothing is rejected.  A match state is the character
  before the current position (\<open>None\<close> at the start of the string) and the rest of the
  string; \<open>rmatch\<close> lists the states after a match, most preferred first.  The flag
  \<open>ci\<close> is the \<^verbatim>\<open>i\<close> flag.
\<close>

datatype rx =
    Chr char
  | Dot
  | AnyChar
  | Space
  | Digit
  | Word
  | OneOf string
  | Bol
  | Eol
  | WordB
  | Eps
  | Seq rx rx
  | Alt rx rx
  | Star rx

definition char_eq :: "bool \<Rightarrow> char \<Rightarrow> char \<Rightarrow> bool" where
  "char_eq ci x c = (if ci then toLowerChar x = toLowerChar c else x = c)"

definition word_before :: "char option \<Rightarrow> bool" where
  "word_before p = (case p of None \<Rightarrow> False | Some c \<Rightarrow> is_word c)"

definition word_after :: "string \<Rightarrow> bool" where
  "word_after s = (case s of [] \<Rightarrow> False | c # _ \<Rightarrow> is_word c)"

definition step :: "(char \<Rightarrow> bool) \<Rightarrow> string \<Rightarrow> (char option \<times> string) list" where
  "step P s = (case s of [] \<Rightarrow> [] | x # xs \<Rightarrow> if P x then [(Some x, xs)] else [])"

function rmatch :: "bool \<Rightarrow> rx \<Rightarrow> char option \<Rightarrow> string \<Rightarrow> (char option \<times> string) list" where
  "rmatch ci (Chr c) p s = step (\<lambda>x. char_eq ci x c) s"
| "rmatch ci Dot p s = step (\<lambda>x. x \<noteq> CHR 0x0A \<and> x \<noteq> CHR 0x0D) s"
| "rmatch ci AnyChar p s = step (\<lambda>x. True) s"
| "rmatch ci Space p s = step is_space s"
| "rmatch ci Digit p s = step (\<lambda>x. x \<in> set digit_chars) s"
| "rmatch ci Word p s = step is_word s"
| "rmatch ci (OneOf cs) p s = step (\<lambda>x. x \<in> set cs) s"
| "rmatch ci Bol p s = (if p = None then [(p, s)] else [])"
| "rmatch ci Eol p s = (if s = [] then [(p, s)] else [])"
| "rmatch ci WordB p s = (if word_before p \<noteq> word_after s then [(p, s)] else [])"
| "rmatch ci Eps p s = [(p, s)]"
| "rmatch ci (Seq a b) p s = concat (map (\<lambda>(p', s'). rmatch ci b p' s') (rmatch ci a p s))"
| "rmatch ci (Alt a b) p s = rmatch ci a p s @ rmatch ci b p s"
| "rmatch ci (Star r) p s =
     concat (map (\<lambda>(p', s'). rmatch ci (Star r) p' s')
               (filter (\<lambda>(p', s'). length s' < length s) (rmatch ci r p s)))
     @ [(p, s)]"
  by pat_completeness auto
termination
  by (relation "measures [\<lambda>(ci, r, p, s). size r, \<lambda>(ci, r, p, s). length s]") auto

text \<open>Abbreviations for writing the source's patterns.\<close>

definition Str :: "string \<Rightarrow> rx" where
  "Str s = foldr (\<lambda>c r. Seq (Chr c) r) s Eps"

fun Alts :: "rx list \<Rightarrow> rx" where
  "Alts [] = OneOf []"
| "Alts [r] = r"
| "Alts (r # rs) = Alt r (Alts rs)"

definition Lits :: "string list \<Rightarrow> rx" where
  "Lits ss = Alts (map Str ss)"

definition Seqs :: "rx list \<Rightarrow> rx" where
  "Seqs rs = foldr Seq rs Eps"

definition Opt :: "rx \<Rightarrow> rx" where
  "Opt r = Alt r Eps"

definition Plus :: "rx \<Rightarrow> rx" where
  "Plus r = Seq r (Star r)"

text \<open>
  \<^verbatim>\<open>re.test(s)\<close> and the truth of \<^verbatim>\<open>s.match(re)\<close>: a match starting at some position,
  positions tried left to right.
\<close>

fun rsearch :: "bool \<Rightarrow> rx \<Rightarrow> char option \<Rightarrow> string \<Rightarrow> bool" where
  "rsearch ci r p [] = (rmatch ci r p [] \<noteq> [])"
| "rsearch ci r p (x # xs) = (rmatch ci r p (x # xs) \<noteq> [] \<or> rsearch ci r (Some x) xs)"

definition rtest :: "bool \<Rightarrow> rx \<Rightarrow> string \<Rightarrow> bool" where
  "rtest ci r s = rsearch ci r None s"

text \<open>
  \<^verbatim>\<open>s.replace(re, '')\<close> with the \<^verbatim>\<open>g\<close> flag: every match, found left to right, is
  deleted and the search resumes after it; an empty match deletes nothing and the
  search moves on by one character.
\<close>

function rdelete :: "bool \<Rightarrow> rx \<Rightarrow> char option \<Rightarrow> string \<Rightarrow> string" where
  "rdelete ci r p [] = []"
| "rdelete ci r p (x # xs) =
     (case rmatch ci r p (x # xs) of
        [] \<Rightarrow> x # rdelete ci r (Some x) xs
      | (p', s') # _ \<Rightarrow>
          if length s' < length (x # xs) then rdelete ci r p' s'
          else x # rdelete ci r (Some x) xs)"
  by pat_completeness auto
termination
  by (relation "measure (\<lambda>(ci, r, p, s). length s)") auto

definition replace_all :: "bool \<Rightarrow> rx \<Rightarrow> string \<Rightarrow> string" where
  "replace_all ci r s = rdelete ci r None s"

text \<open>
  The text of the first group of the leftmost match of a pattern of the shape
  \<^verbatim>\<open>(a)b\<close>: at each position the first way of matching \<open>a\<close> after which \<open>b\<close> matches.
\<close>

definition capture_at :: "bool \<Rightarrow> rx \<Rightarrow> rx \<Rightarrow> char option \<Rightarrow> string \<Rightarrow> string option" where
  "capture_at ci a b p s =
     (case filter (\<lambda>(p', s'). rmatch ci b p' s' \<noteq> []) (rmatch ci a p s) of
        [] \<Rightarrow> None
      | (p', s') # _ \<Rightarrow> Some (take (length s - length s') s))"

fun rcapture :: "bool \<Rightarrow> rx \<Rightarrow> rx \<Rightarrow> char option \<Rightarrow> string \<Rightarrow> string option" where
  "rcapture ci a b p [] = capture_at ci a b p []"
| "rcapture ci a b p (x # xs) =
     (case capture_at ci a b p (x # xs) of
        Some c \<Rightarrow> Some c
      | None \<Rightarrow> rcapture ci a b (Some x) xs)"

text \<open>\<^verbatim>\<open>s.match(re)[0]\<close>: the text of the leftmost match, \<open>None\<close> when there is none.\<close>

definition rmatch0 :: "bool \<Rightarrow> rx \<Rightarrow> string \<Rightarrow> string option" where
  "rmatch0 ci r s = rcapture ci r Eps None s"

section \<open>The brain's state and its environment\<close>

text \<open>The values \<^verbatim>\<open>JSON.parse\<close> returns, and the truthiness of a property that may be absent.\<close>

datatype json =
    JNull
  | JBool bool
  | JNum int
  | JStr string
  | JArr "json list"
  | JObj "(string \<times> json) list"

fun js_truthy :: "json option \<Rightarrow> bool" where
  "js_truthy None = False"
| "js_truthy (Some JNull) = False"
| "js_truthy (Some (JBool v)) = v"
| "js_truthy (Some (JNum n)) = (n \<noteq> 0)"
| "js_truthy (Some (JStr s)) = (s \<noteq> [])"
| "js_truthy (Some (JArr xs)) = True"
| "js_truthy (Some (JObj kvs)) = True"

text \<open>
  Reading a property of a parsed object by destructuring: the value of the key,
  \<^verbatim>\<open>undefined\<close> for a missing key.
\<close>

definition get_prop :: "(string \<times> json) list \<Rightarrow> string \<Rightarrow> json option" where
  "get_prop parsed k = map_of parsed k"

text \<open>
  Every request the brain sends to the outside is logged as an event, in order.
  \<open>RefreshInvoked\<close> marks an entry into \<^verbatim>\<open>_refreshAccessToken\<close>; \<open>PostOAuth rt\<close> is the
  POST to the OAuth token endpoint carrying refresh token \<open>rt\<close>; \<open>PostOpenAI tok p\<close> is
  the POST to the chat-completions endpoint with bearer token \<open>tok\<close> and user prompt \<open>p\<close>;
  \<open>Prefetch m\<close> is the call of \<^verbatim>\<open>prefetchData\<close>; \<open>ToolDescriptions\<close> is the call of
  \<^verbatim>\<open>mcpBridge.getToolDescriptions\<close>; \<open>PostGeminiData p\<close> is the POST of
  \<^verbatim>\<open>_fallbackToGemini\<close> with analysis prompt \<open>p\<close>; \<open>GeminiChat m\<close> is the plain chat
  request of \<^verbatim>\<open>thinkWithGemini\<close> for message \<open>m\<close>; \<open>PostClassify m\<close> is the classifier's
  POST; \<open>PostParseEmail m\<close> is the parsing POST of \<^verbatim>\<open>_handleSendEmail\<close>;
  \<open>SendEmail to subject body\<close> is the call of the \<^verbatim>\<open>sendEmail\<close> skill;
  \<open>FetchRecentEmails n\<close>, \<open>FetchTodayEvents\<close> and \<open>FetchRecentFiles n\<close> are the calls of
  the workspace skill's \<^verbatim>\<open>getRecentEmails(n)\<close>, \<^verbatim>\<open>getTodayEvents()\<close> and
  \<^verbatim>\<open>listRecentFiles(n)\<close>.
\<close>

datatype event =
    RefreshInvoked
  | PostOAuth string
  | PostOpenAI "string option" string
  | Prefetch string
  | ToolDescriptions
  | PostGeminiData string
  | GeminiChat string
  | PostClassify string
  | PostParseEmail string
  | SendEmail json json json
  | FetchRecentEmails nat
  | FetchTodayEvents
  | FetchRecentFiles nat

text \<open>
  The fields of \<^verbatim>\<open>SmartBrain\<close> that the modelled methods read or write.  The three
  agent fields and \<open>mcpBridge\<close> record whether the object is set; \<open>trace\<close> is the log
  of events (an observation, not a field of the class).
\<close>

record brain =
  geminiApiKey :: "string option"
  openaiAccessToken :: "string option"
  openaiRefreshToken :: "string option"
  tokenExpiresAt :: int
  claudeSystemPrompt :: string
  geminiPrompt :: string
  memoryContext :: string
  learnedContext :: string
  mcpBridge :: bool
  agentLoop :: bool
  planner :: bool
  orchestrator :: bool
  trace :: "event list"

text \<open>The body of the OAuth endpoint's response, \<^verbatim>\<open>response.data\<close>.\<close>

record token_response =
  access_token :: "string option"
  refresh_token :: "string option"
  expires_in :: "int option"

text \<open>
  The environment is deterministic in the history: each request is answered, and the
  clock is read, as a function of the events logged so far.  \<open>Inl\<close> is a thrown error
  (a rejected request, a timeout, or a response without the expected shape).
  For the language-model endpoints the \<open>Inr\<close> value is the text field of the
  response, \<^verbatim>\<open>undefined\<close> when the optional chain finds none.  \<open>geminiChat\<close> stands for
  the key router, the rate limiter and its retries around the chat request, all inside
  the \<^verbatim>\<open>try\<close> of \<^verbatim>\<open>thinkWithGemini\<close>.  \<open>prefetched\<close> is what \<^verbatim>\<open>prefetchData\<close>
  returns: the method catches its own errors and always returns a string.
  \<open>sendEmail\<close> answers the skill call with its string result (\<open>None\<close> for a result
  that is not a string).  \<open>JSON_parse\<close> is the built-in \<^verbatim>\<open>JSON.parse\<close> on a text that
  begins with an opening brace: by the JSON grammar it throws or returns an object,
  given by its keys and values.  \<open>getRecentEmails\<close>, \<open>getTodayEvents\<close> and
  \<open>listRecentFiles\<close> answer the calls of the workspace skill with the text they return.
\<close>

record world =
  clock :: "event list \<Rightarrow> int"
  oauth :: "event list \<Rightarrow> js_error + token_response"
  openai :: "event list \<Rightarrow> js_error + string option"
  prefetched :: "event list \<Rightarrow> string"
  toolDescriptions :: "event list \<Rightarrow> js_error + string option"
  gemini :: "event list \<Rightarrow> js_error + string option"
  geminiChat :: "event list \<Rightarrow> js_error + string option"
  classifier :: "event list \<Rightarrow> js_error + string option"
  parseEmail :: "event list \<Rightarrow> js_error + string option"
  sendEmail :: "event list \<Rightarrow> js_error + string option"
  JSON_parse :: "string \<Rightarrow> js_error + (string \<times> json) list"
  getRecentEmails :: "event list \<Rightarrow> js_error + string"
  getTodayEvents :: "event list \<Rightarrow> js_error + string"
  listRecentFiles :: "event list \<Rightarrow> js_error + string"

definition log :: "event \<Rightarrow> brain \<Rightarrow> brain" where
  "log e b = b\<lparr>trace := trace b @ [e]\<rparr>"

text \<open>
  The skills the brain looks up: whether each is present, and for the Google workspace
  whether \<^verbatim>\<open>googleWorkspace?.isReady()\<close> holds.
\<close>

record skills =
  geminiImage :: bool
  geminiVideo :: bool
  weather :: bool
  googleWorkspaceReady :: bool
  scheduler :: bool
  braveSearch :: bool

text \<open>The configuration values the constructor reads (\<^verbatim>\<open>config.js\<close>).\<close>

record config =
  cfg_geminiApiKey :: "string option"
  cfg_openaiCodexToken :: "string option"
  cfg_openaiCodexRefresh :: "string option"

text \<open>
  The constructor.  The system prompt embeds the date of construction and is a
  parameter; \<^verbatim>\<open>_tokenExpiresAt\<close> starts at 0.
\<close>

definition SmartBrain :: "config \<Rightarrow> string \<Rightarrow> brain" where
  "SmartBrain cfg sysPrompt =
     \<lparr>geminiApiKey = cfg_geminiApiKey cfg,
      openaiAccessToken = cfg_openaiCodexToken cfg,
      openaiRefreshToken = cfg_openaiCodexRefresh cfg,
      tokenExpiresAt = 0,
      claudeSystemPrompt = sysPrompt,
      geminiPrompt = ''You are Mary Jane (MJ), Omar's helpful AI assistant.'' @ nl
         @ ''Be friendly, concise, and helpful. You can chat naturally.'',
      memoryContext = [],
      learnedContext = [],
      mcpBridge = False,
      agentLoop = False,
      planner = False,
      orchestrator = False,
      trace = []\<rparr>"

section \<open>Token lifecycle\<close>

text \<open>\<^verbatim>\<open>response.data.expires_in || 3600\<close>: a missing or zero lifetime is 3600 seconds.\<close>

definition lifetime :: "token_response \<Rightarrow> int" where
  "lifetime r = (case expires_in r of None \<Rightarrow> 3600 | Some n \<Rightarrow> if n = 0 then 3600 else n)"

text \<open>
  \<^verbatim>\<open>_refreshAccessToken\<close>.  Without a refresh token it throws before any request.
  Otherwise it posts the refresh token; on success it stores the new access token,
  rotates the refresh token when the response carries one, and sets the expiry to the
  time read after the response plus the lifetime minus one minute.  A failed request is
  rethrown as a new error.
\<close>

definition refreshAccessToken :: "world \<Rightarrow> brain \<Rightarrow> (js_error + unit) \<times> brain" where
  "refreshAccessToken w b0 =
     (let b = log RefreshInvoked b0 in
      if \<not> truthy (openaiRefreshToken b) then
        (Inl (new_Error ''No OpenAI refresh token configured''), b)
      else
        let b1 = log (PostOAuth (the (openaiRefreshToken b))) b in
        case oauth w (trace b1) of
          Inl e \<Rightarrow>
            (Inl (new_Error (''OpenAI token refresh failed: '' @
               (if truthy (err_server_message e) then the (err_server_message e)
                else err_message e))), b1)
        | Inr r \<Rightarrow>
            (Inr (),
             b1\<lparr>openaiAccessToken := access_token r,
                openaiRefreshToken :=
                  (if truthy (refresh_token r) then refresh_token r else openaiRefreshToken b1),
                tokenExpiresAt := clock w (trace b1) + lifetime r * 1000 - 60000\<rparr>))"

text \<open>\<^verbatim>\<open>_getValidToken\<close>.\<close>

definition getValidToken :: "world \<Rightarrow> brain \<Rightarrow> (js_error + string option) \<times> brain" where
  "getValidToken w b =
     (if \<not> truthy (openaiAccessToken b) \<and> \<not> truthy (openaiRefreshToken b) then
        (Inl (new_Error
           ''No OpenAI credentials configured. Set OPENAI_CODEX_TOKEN and OPENAI_CODEX_REFRESH in .env''), b)
      else if \<not> truthy (openaiAccessToken b) \<or> tokenExpiresAt b \<le> clock w (trace b) then
        (case refreshAccessToken w b of
           (Inl e, b') \<Rightarrow> (Inl e, b')
         | (Inr _, b') \<Rightarrow> (Inr (openaiAccessToken b'), b'))
      else (Inr (openaiAccessToken b), b))"

section \<open>Calling the powerful backend\<close>

definition maxPromptLen :: nat where
  "maxPromptLen = 100000"

definition safePrompt :: "string \<Rightarrow> string" where
  "safePrompt prompt =
     (if length prompt > maxPromptLen
      then take maxPromptLen prompt @ [CHR 0x0A, CHR 0x0A] @ ''[Prompt truncated for length]''
      else prompt)"

text \<open>
  \<^verbatim>\<open>text ? text : null\<close> and \<^verbatim>\<open>content || null\<close>: a missing or empty text is \<^verbatim>\<open>null\<close>.
\<close>

definition or_null :: "string option \<Rightarrow> string option" where
  "or_null t = (if truthy t then t else None)"

text \<open>The \<^verbatim>\<open>try\<close> block of \<^verbatim>\<open>_callOpenAI\<close>: token, then the main call.\<close>

definition callOpenAI_try :: "world \<Rightarrow> brain \<Rightarrow> string \<Rightarrow> (js_error + string option) \<times> brain" where
  "callOpenAI_try w b prompt =
     (case getValidToken w b of
        (Inl e, b1) \<Rightarrow> (Inl e, b1)
      | (Inr token, b1) \<Rightarrow>
          (let b2 = log (PostOpenAI token (safePrompt prompt)) b1 in
           (case openai w (trace b2) of
              Inl e \<Rightarrow> (Inl e, b2)
            | Inr text \<Rightarrow> (Inr (or_null text), b2))))"

text \<open>
  The \<^verbatim>\<open>catch\<close> block of \<^verbatim>\<open>_callOpenAI\<close>: on status 401 one refresh and one retry, whose
  error is rethrown; a timeout is rethrown as a new error; anything else is rethrown.
\<close>

definition callOpenAI_catch :: "world \<Rightarrow> brain \<Rightarrow> string \<Rightarrow> js_error \<Rightarrow> (js_error + string option) \<times> brain" where
  "callOpenAI_catch w b prompt error =
     (if err_status error = Some 401 then
        (case refreshAccessToken w b of
           (Inl retryErr, b1) \<Rightarrow> (Inl retryErr, b1)
         | (Inr _, b1) \<Rightarrow>
             (let token = openaiAccessToken b1;
                  b2 = log (PostOpenAI token (take 100000 prompt)) b1 in
              (case openai w (trace b2) of
                 Inl retryErr \<Rightarrow> (Inl retryErr, b2)
               | Inr content \<Rightarrow> (Inr (or_null content), b2))))
      else if err_code error = Some ''ECONNABORTED'' then
        (Inl (new_Error ''OpenAI API timed out''), b)
      else (Inl error, b))"

definition callOpenAI :: "world \<Rightarrow> brain \<Rightarrow> string \<Rightarrow> (js_error + string option) \<times> brain" where
  "callOpenAI w b prompt =
     (case callOpenAI_try w b prompt of
        (Inl error, b1) \<Rightarrow> callOpenAI_catch w b1 prompt error
      | (Inr r, b1) \<Rightarrow> (Inr r, b1))"

section \<open>The fallback chain\<close>

text \<open>
  The conversation context is an array of messages, as the interface types it; a call
  with a context that is not an array is outside the model.
\<close>

record msg =
  role :: string
  content :: string

text \<open>\<^verbatim>\<open>context.slice(-n).map(m => `${m.role}: ${m.content}`).join('\n')\<close>\<close>

definition contextStr :: "nat \<Rightarrow> msg list \<Rightarrow> string" where
  "contextStr n ctx = join nl (map (\<lambda>m. role m @ '': '' @ content m) (slice_last n ctx))"

text \<open>
  \<^verbatim>\<open>thinkWithGemini\<close>: plain chat.  Without an API key it answers at once; otherwise one
  chat request, whose error becomes the reply.
\<close>

definition thinkWithGemini :: "world \<Rightarrow> brain \<Rightarrow> string \<Rightarrow> msg list \<Rightarrow> (js_error + string) \<times> brain" where
  "thinkWithGemini w b message ctx =
     (if \<not> truthy (geminiApiKey b) then (Inr ''Add GEMINI_API_KEY to .env'', b)
      else
        let b1 = log (GeminiChat message) b in
        case geminiChat w (trace b1) of
          Inr text \<Rightarrow> (Inr (if truthy text then the text else ''I'm here!''), b1)
        | Inl error \<Rightarrow> (Inr (''Error: '' @ err_message error), b1))"

text \<open>The prompt of \<^verbatim>\<open>_fallbackToGemini\<close> when there is prefetched data.\<close>

definition analysisPrompt :: "msg list \<Rightarrow> string \<Rightarrow> string \<Rightarrow> string" where
  "analysisPrompt ctx prefetchedData message =
     (if contextStr 5 ctx \<noteq> [] then ''Recent conversation:'' @ nl @ contextStr 5 ctx @ nl @ nl
      else [])
     @ ''Here is real data from Omar's accounts:'' @ nl @ nl @ prefetchedData @ nl @ nl
     @ ''Omar's request: '' @ message @ nl @ nl
     @ ''Analyze the data and answer his question directly.''"

text \<open>
  \<^verbatim>\<open>_fallbackToGemini\<close>; \<open>prefetchedData\<close> is \<open>None\<close> for \<^verbatim>\<open>null\<close>.  With data: one
  request with the data in the prompt, and every outcome of it is returned as a string.
  Without data: plain chat.
\<close>

definition fallbackToGemini ::
  "world \<Rightarrow> brain \<Rightarrow> string \<Rightarrow> msg list \<Rightarrow> string option \<Rightarrow> (js_error + string) \<times> brain" where
  "fallbackToGemini w b message ctx prefetchedData =
     (if truthy prefetchedData then
        let b1 = log (PostGeminiData (analysisPrompt ctx (the prefetchedData) message)) b in
        case gemini w (trace b1) of
          Inr text \<Rightarrow>
            (Inr (if truthy text then the text
                  else ''I found the data but couldn't analyze it. Try asking differently.''), b1)
        | Inl error \<Rightarrow> (Inr (''Both Claude and Gemini failed: '' @ err_message error), b1)
      else thinkWithGemini w b message ctx)"

text \<open>The prompt \<^verbatim>\<open>thinkWithClaude\<close> builds; \<open>toolInfo\<close> is \<open>None\<close> without MCP tools.\<close>

definition fullPrompt :: "brain \<Rightarrow> msg list \<Rightarrow> string option \<Rightarrow> string \<Rightarrow> string \<Rightarrow> string" where
  "fullPrompt b ctx toolInfo prefetchedData message =
     claudeSystemPrompt b @ nl @ nl
     @ (if memoryContext b \<noteq> [] then memoryContext b @ nl @ nl else [])
     @ (if learnedContext b \<noteq> [] then learnedContext b @ nl @ nl else [])
     @ (if contextStr 5 ctx \<noteq> [] then ''Recent conversation:'' @ nl @ contextStr 5 ctx @ nl @ nl
        else [])
     @ (if truthy toolInfo then ''Available MCP tools:'' @ nl @ the toolInfo @ nl @ nl else [])
     @ (if prefetchedData \<noteq> []
        then ''Here is real data from Omar's accounts:'' @ nl @ nl @ prefetchedData @ nl @ nl
        else [])
     @ ''Omar's request: '' @ message @ nl @ nl
     @ ''Analyze the data and answer his question directly. Be concise.''"

text \<open>
  The \<^verbatim>\<open>try\<close> block of \<^verbatim>\<open>thinkWithClaude\<close> after the prefetch: the tool descriptions
  (when a bridge is set), then the call of the powerful backend.
\<close>

definition thinkWithClaude_try ::
  "world \<Rightarrow> brain \<Rightarrow> string \<Rightarrow> msg list \<Rightarrow> string \<Rightarrow> (js_error + string option) \<times> brain" where
  "thinkWithClaude_try w b message ctx prefetchedData =
     (if mcpBridge b then
        let b1 = log ToolDescriptions b in
        case toolDescriptions w (trace b1) of
          Inl error \<Rightarrow> (Inl error, b1)
        | Inr toolInfo \<Rightarrow> callOpenAI w b1 (fullPrompt b1 ctx toolInfo prefetchedData message)
      else callOpenAI w b (fullPrompt b ctx None prefetchedData message))"

text \<open>
  \<^verbatim>\<open>thinkWithClaude\<close>: a non-empty answer is returned; an empty answer and a thrown
  error both go to \<^verbatim>\<open>_fallbackToGemini\<close> with the prefetched data.
\<close>

definition thinkWithClaude :: "world \<Rightarrow> brain \<Rightarrow> string \<Rightarrow> msg list \<Rightarrow> (js_error + string) \<times> brain" where
  "thinkWithClaude w b message ctx =
     (let b1 = log (Prefetch message) b;
          prefetchedData = prefetched w (trace b1)
      in case thinkWithClaude_try w b1 message ctx prefetchedData of
           (Inr openaiResponse, b2) \<Rightarrow>
             (if truthy openaiResponse then (Inr (the openaiResponse), b2)
              else fallbackToGemini w b2 message ctx (Some prefetchedData))
         | (Inl error, b2) \<Rightarrow> fallbackToGemini w b2 message ctx (Some prefetchedData))"

text \<open>
  Compose mode.  The three patterns that choose the context to fetch, on the message in
  lower case.
\<close>

datatype composeType = Document | Draft | Summarize

definition rx_ctx_email :: rx where
  "rx_ctx_email = Lits [''email'', ''inbox'', ''mail'', ''thread'', ''conversation'', ''reply'']"

definition rx_ctx_calendar :: rx where
  "rx_ctx_calendar = Lits [''calendar'', ''schedule'', ''meeting'', ''event'', ''appointment'']"

definition rx_ctx_files :: rx where
  "rx_ctx_files = Lits [''file'', ''document'', ''drive'', ''spreadsheet'', ''sheet'']"

text \<open>
  One guarded fetch of \<^verbatim>\<open>_composeWithClaude\<close>: when the pattern matched, the skill is
  called inside its own \<^verbatim>\<open>try\<close>; its text is appended under the header, and its error
  is swallowed.
\<close>

definition fetch_section ::
  "bool \<Rightarrow> event \<Rightarrow> (event list \<Rightarrow> js_error + string) \<Rightarrow> string \<Rightarrow> string \<times> brain
     \<Rightarrow> string \<times> brain" where
  "fetch_section wanted ev call header acc =
     (if wanted then
        (let b1 = log ev (snd acc) in
         (case call (trace b1) of
            Inr fetched \<Rightarrow> (fst acc @ nl @ header @ nl @ fetched @ nl, b1)
          | Inl e \<Rightarrow> (fst acc, b1)))
      else acc)"

text \<open>The context data of compose mode: emails, then calendar, then files.\<close>

definition composeContext :: "world \<Rightarrow> brain \<Rightarrow> skills \<Rightarrow> string \<Rightarrow> string \<times> brain" where
  "composeContext w b sk lower =
     (if googleWorkspaceReady sk then
        fetch_section (rtest False rx_ctx_files lower) (FetchRecentFiles 5) (listRecentFiles w)
          ''=== RECENT DRIVE FILES ===''
          (fetch_section (rtest False rx_ctx_calendar lower) FetchTodayEvents (getTodayEvents w)
            ''=== TODAY'S CALENDAR ===''
            (fetch_section (rtest False rx_ctx_email lower) (FetchRecentEmails 5)
              (getRecentEmails w) ''=== RECENT EMAILS (for context) ==='' ([], b)))
      else ([], b))"

text \<open>The prompt of compose mode, for each of the three kinds.\<close>

definition composePrompt :: "composeType \<Rightarrow> string \<Rightarrow> string \<Rightarrow> string \<Rightarrow> string" where
  "composePrompt composeType contextData conversationContext message =
     ''You are Omar's personal assistant. He wants you to ''
     @ (case composeType of
          Document \<Rightarrow> ''CREATE content for a document.''
        | Draft \<Rightarrow> ''DRAFT written content.''
        | Summarize \<Rightarrow> ''SUMMARIZE or DOCUMENT information.'')
     @ nl @ nl
     @ (if contextData \<noteq> [] then
          (case composeType of
             Document \<Rightarrow> ''Here is real data from his Google account for reference:''
           | Draft \<Rightarrow> ''Here is real data from his Google account for context:''
           | Summarize \<Rightarrow> ''Here is real data from his Google account:'')
          @ nl @ contextData @ nl
        else [])
     @ nl
     @ (if conversationContext \<noteq> [] then ''Recent conversation:'' @ nl @ conversationContext @ nl
        else [])
     @ nl @ ''Omar's request: '' @ message @ nl @ nl
     @ (case composeType of
          Document \<Rightarrow> ''Compose the document content. Be thorough, professional, and well-structured. Use clear headings and formatting. Return ONLY the content.''
        | Draft \<Rightarrow> ''Write the draft content. Match the appropriate tone. Return ONLY the draft text.''
        | Summarize \<Rightarrow> ''Create a clear, organized summary or document. Use bullet points and headings where appropriate. Return ONLY the content.'')"

definition composeIcon :: "composeType \<Rightarrow> string" where
  "composeIcon composeType =
     (case composeType of Document \<Rightarrow> ''Doc'' | Draft \<Rightarrow> ''Draft'' | Summarize \<Rightarrow> ''Summary'')"

definition composedReply :: "composeType \<Rightarrow> string \<Rightarrow> string" where
  "composedReply composeType claudeResponse =
     ''**Claude composed ('' @ composeIcon composeType @ ''):**'' @ nl @ nl @ claudeResponse"

text \<open>
  The \<^verbatim>\<open>try\<close> block of \<^verbatim>\<open>_composeWithClaude\<close>: the context, the call of the powerful
  backend, and for an empty answer the fallback with the context data.
\<close>

definition composeWithClaude_try ::
  "world \<Rightarrow> brain \<Rightarrow> skills \<Rightarrow> string \<Rightarrow> msg list \<Rightarrow> composeType \<Rightarrow> (js_error + string) \<times> brain" where
  "composeWithClaude_try w b sk message ctx composeType =
     (let gathered = composeContext w b sk (toLowerCase message);
          contextData = fst gathered;
          claudePrompt = composePrompt composeType contextData (contextStr 5 ctx) message
      in (case callOpenAI w (snd gathered) claudePrompt of
            (Inl error, b2) \<Rightarrow> (Inl error, b2)
          | (Inr claudeResponse, b2) \<Rightarrow>
              if truthy claudeResponse
              then (Inr (composedReply composeType (the claudeResponse)), b2)
              else fallbackToGemini w b2 message ctx (Some contextData)))"

text \<open>
  \<^verbatim>\<open>_composeWithClaude\<close>: an error thrown in the \<^verbatim>\<open>try\<close> block goes to
  \<^verbatim>\<open>_fallbackToGemini\<close> without data.
\<close>

definition composeWithClaude ::
  "world \<Rightarrow> brain \<Rightarrow> skills \<Rightarrow> string \<Rightarrow> msg list \<Rightarrow> composeType \<Rightarrow> (js_error + string) \<times> brain" where
  "composeWithClaude w b sk message ctx composeType =
     (case composeWithClaude_try w b sk message ctx composeType of
        (Inl error, b2) \<Rightarrow> fallbackToGemini w b2 message ctx None
      | (Inr answer, b2) \<Rightarrow> (Inr answer, b2))"

section \<open>The classifier\<close>

datatype backend = to_claude | to_gemini

text \<open>
  \<^verbatim>\<open>classifyMessage\<close>: the text of the response, trimmed and in upper case, is compared
  with \<^verbatim>\<open>ACTION\<close>; a response without text and a thrown error give \<^verbatim>\<open>'gemini'\<close>
  (\<open>to_gemini\<close>; \<open>to_claude\<close> is \<^verbatim>\<open>'claude'\<close>).
\<close>

definition classifyMessage :: "world \<Rightarrow> brain \<Rightarrow> string \<Rightarrow> (js_error + backend) \<times> brain" where
  "classifyMessage w b message =
     (let b1 = log (PostClassify message) b in
      case classifier w (trace b1) of
        Inr text \<Rightarrow>
          (case text of
             None \<Rightarrow> (Inr to_gemini, b1)
           | Some t \<Rightarrow> (Inr (if toUpperCase (trim t) = ''ACTION'' then to_claude else to_gemini), b1))
      | Inl error \<Rightarrow> (Inr to_gemini, b1))"

section \<open>The send-email handler\<close>

text \<open>\<^verbatim>\<open>/\{[\s\S]*\}/\<close>: from the first opening brace to the last closing brace.\<close>

definition rx_json :: rx where
  "rx_json = Seqs [Chr CHR ''{'', Star AnyChar, Chr CHR ''}'']"

text \<open>
  What the handler returns: a fixed or error text, or the confirmation built from the
  recipient, the subject and the skill's string result.
\<close>

datatype reply =
    Text string
  | EmailSent json "json option" string

definition guidance_no_json :: string where
  "guidance_no_json = ''I couldn't understand the email details. Try: '' @ [CHR 0x22]
     @ ''Send an email to name@email.com about [subject] saying [message]'' @ [CHR 0x22]"

definition guidance_no_recipient :: string where
  "guidance_no_recipient = ''I need a recipient email address.''"

definition failed_to_send :: "js_error \<Rightarrow> reply" where
  "failed_to_send error = Text (''Failed to send email: '' @ err_message error)"

text \<open>\<^verbatim>\<open>text || ''\<close> on a response text, and \<^verbatim>\<open>x || d\<close> on a property.\<close>

definition or_empty :: "string option \<Rightarrow> string" where
  "or_empty t = (if truthy t then the t else [])"

definition or_else :: "json option \<Rightarrow> json \<Rightarrow> json" where
  "or_else v d = (if js_truthy v then the v else d)"

text \<open>
  \<^verbatim>\<open>_handleSendEmail\<close>.  Every throw inside the method is caught and returned as text.
\<close>

definition handleSendEmail :: "world \<Rightarrow> brain \<Rightarrow> string \<Rightarrow> (js_error + reply) \<times> brain" where
  "handleSendEmail w b message =
     (let b1 = log (PostParseEmail message) b in
      case parseEmail w (trace b1) of
        Inl error \<Rightarrow> (Inr (failed_to_send error), b1)
      | Inr text \<Rightarrow>
          (let rawText = or_empty text in
           (case rmatch0 False rx_json rawText of
              None \<Rightarrow> (Inr (Text guidance_no_json), b1)
            | Some jsonMatch \<Rightarrow>
                (case JSON_parse w jsonMatch of
                   Inl error \<Rightarrow> (Inr (failed_to_send error), b1)
                 | Inr parsed \<Rightarrow>
                     if \<not> js_truthy (get_prop parsed ''to'')
                     then (Inr (Text guidance_no_recipient), b1)
                     else
                       (let to = the (get_prop parsed ''to'');
                            b2 = log (SendEmail to
                                       (or_else (get_prop parsed ''subject'') (JStr ''(no subject)''))
                                       (or_else (get_prop parsed ''body'') (JStr message))) b1
                        in (case sendEmail w (trace b2) of
                              Inl error \<Rightarrow> (Inr (failed_to_send error), b2)
                            | Inr result \<Rightarrow>
                                (Inr (EmailSent to (get_prop parsed ''subject'')
                                        (case result of Some r \<Rightarrow> r | None \<Rightarrow> [])),
                                 b2)))))))"

section \<open>Drive search term\<close>

text \<open>The four patterns of the drive branch of \<^verbatim>\<open>_analyzeGoogleData\<close>, and the stop tokens.\<close>

definition rx_polite :: rx where
  "rx_polite = Seq Bol (Lits [''can you '', ''please '', ''hey '', ''could you '',
      ''i want to '', ''i need to ''])"

definition rx_verbs :: rx where
  "rx_verbs = Seq (Alts [Str ''search'', Str ''find'', Str ''look'', Str ''check'', Str ''show'',
      Str ''get'', Str ''list'', Str ''see'', Str ''view'', Str ''open'', Str ''my'', Str ''on'',
      Str ''in'', Str ''the'', Str ''me'', Str ''through'', Str ''for'', Str ''at'', Str ''all'',
      Str ''up'', Seqs [Str ''what'', Opt (Chr (CHR 0x27)), Opt (Chr CHR ''s'')],
      Str ''is'', Str ''are'', Str ''do'', Str ''does'']) (Star Space)"

definition rx_nouns :: rx where
  "rx_nouns = Seqs [WordB, Alts [Str ''drive'', Seq (Str ''file'') (Opt (Chr CHR ''s'')),
      Seq (Str ''document'') (Opt (Chr CHR ''s'')), Seq (Str ''folder'') (Opt (Chr CHR ''s'')),
      Str ''google'', Str ''recent'', Str ''stuff'', Seq (Str ''thing'') (Opt (Chr CHR ''s'')),
      Str ''content''], WordB]"

definition rx_punct :: rx where
  "rx_punct = OneOf ''?!.,''"

definition rx_stop :: rx where
  "rx_stop = Seqs [Bol, Lits [''or'', ''not'', ''to'', ''it'', ''a'', ''an'', ''i'', ''and'',
      ''but'', ''so'', ''how'', ''can'', ''has'', ''have'', ''had''], Eol]"

text \<open>The search term of the drive branch: four deletions, a trim, and the default.\<close>

definition driveSearchTerm :: "string \<Rightarrow> string" where
  "driveSearchTerm message =
     (let searchTerm = trim (replace_all False rx_punct (replace_all True rx_nouns
            (replace_all True rx_verbs (replace_all True rx_polite message))))
      in if searchTerm = [] \<or> length searchTerm < 3 \<or> rtest True rx_stop searchTerm
         then ''recent'' else searchTerm)"

section \<open>Video options\<close>

record video_options =
  audio :: "bool option"
  resolution :: "string option"
  aspectRatio :: "string option"
  quality :: "string option"
  duration :: "nat option"

definition rx_no_audio :: rx where
  "rx_no_audio = Alts [Seqs [Str ''no'', Star Space, Str ''audio''], Str ''silent'', Str ''mute'',
      Seqs [Str ''without'', Star Space, Str ''sound''], Seqs [Str ''no'', Star Space, Str ''sound'']]"

definition rx_4k :: rx where
  "rx_4k = Alts [Str ''4k'', Seqs [Str ''ultra'', Opt Dot, Str ''hd''], Str ''uhd'']"

definition rx_1080p :: rx where
  "rx_1080p = Alts [Str ''1080p'', Seqs [Str ''full'', Opt Dot, Str ''hd'']]"

definition rx_portrait :: rx where
  "rx_portrait = Alts [Str ''portrait'', Str ''vertical'', Seqs [Str ''9'', Opt Dot, Str ''16''],
      Str ''tiktok'', Str ''reel'']"

definition rx_quality :: rx where
  "rx_quality = Alts [Seqs [Str ''high'', Opt Dot, Str ''quality''],
      Seqs [Str ''standard'', Opt Dot, Str ''quality''],
      Seqs [Str ''best'', Opt Dot, Str ''quality''], Str ''premium'']"

text \<open>\<^verbatim>\<open>lower.match(/(\d+)\s*sec/)\<close>: the digits of the leftmost match.\<close>

definition durMatch :: "string \<Rightarrow> string option" where
  "durMatch lower = rcapture False (Plus Digit) (Seq (Star Space) (Str ''sec'')) None lower"

text \<open>The options of the video intent, from the message in lower case.\<close>

definition videoOptions :: "string \<Rightarrow> video_options" where
  "videoOptions lower =
     \<lparr>audio = (if rtest True rx_no_audio lower then Some False else None),
      resolution = (if rtest True rx_4k lower then Some ''4k''
                    else if rtest True rx_1080p lower then Some ''1080p'' else None),
      aspectRatio = (if rtest True rx_portrait lower then Some ''9:16'' else None),
      quality = (if rtest True rx_quality lower then Some ''standard'' else None),
      duration = (case durMatch lower of
                    None \<Rightarrow> None
                  | Some ds \<Rightarrow> if parseInt ds \<in> set [4, 6, 8] then Some (parseInt ds) else None)\<rparr>"

section \<open>Intent routing\<close>

text \<open>The handler \<^verbatim>\<open>think\<close> enters; \<open>Classify\<close> is the final classification.\<close>

datatype route =
    ForceClaude
  | ForceGemini
  | ForceAgent
  | ForcePlan
  | Upscale
  | UltraImage
  | StandardImage
  | Video
  | Weather
  | SendEmailIntent
  | Reminder
  | ComposeDocument
  | ComposeDraft
  | ComposeSummarize
  | ReadCalendar
  | ReadEmail
  | ReadDrive
  | WebSearch
  | MultiStep
  | Classify

text \<open>The patterns of \<^verbatim>\<open>think\<close>, in the order of the source.\<close>

definition rx_upscale :: rx where
  "rx_upscale = Alts [Str ''upscale'', Str ''enhance'',
      Seqs [Str ''make'', Star Dot, Lits [''it'', ''this'', ''that''], Star Dot,
            Alts [Str ''bigger'', Str ''larger'', Str ''4k'', Str ''hd'',
                  Seqs [Str ''high'', Opt Dot, Str ''res'']]],
      Seqs [Str ''improve'', Star Dot, Lits [''quality'', ''resolution'']]]"

definition rx_ultra :: rx where
  "rx_ultra = Alts [Str ''ultra'', Str ''premium'', Seqs [Str ''high'', Opt Dot, Str ''quality''],
      Seqs [Str ''best'', Opt Dot, Str ''quality'']]"

definition rx_image :: rx where
  "rx_image = Lits [''image'', ''picture'', ''photo'', ''illustration'', ''logo'', ''icon'',
      ''art'', ''poster'']"

definition rx_generate :: rx where
  "rx_generate = Lits [''generate'', ''create'', ''draw'', ''make'', ''design'', ''paint'']"

definition rx_produce :: rx where
  "rx_produce = Lits [''generate'', ''create'', ''make'', ''produce'']"

definition rx_video :: rx where
  "rx_video = Lits [''video'', ''clip'', ''animation'', ''movie'', ''footage'']"

definition rx_weather :: rx where
  "rx_weather = Lits [''weather'', ''temperature'', ''forecast'', ''rain'', ''snow'', ''humidity'',
      ''feels like'', ''degrees'', ''hot'', ''cold outside'']"

text \<open>\<^verbatim>\<open>(an?\s+)?\<close> and \<^verbatim>\<open>(a\s+)?\<close>\<close>

definition rx_an :: rx where
  "rx_an = Opt (Seqs [Chr CHR ''a'', Opt (Chr CHR ''n''), Plus Space])"

definition rx_a :: rx where
  "rx_a = Opt (Seqs [Chr CHR ''a'', Plus Space])"

definition rx_send_email :: rx where
  "rx_send_email = Alts [
      Seqs [Str ''send'', Plus Space, rx_an, Str ''email''],
      Seqs [Str ''compose'', Plus Space, rx_an, Str ''email''],
      Seqs [Str ''email'', Plus Space, Plus Word, Chr CHR ''@''],
      Seqs [Str ''write'', Plus Space, Str ''to'', Plus Space, Plus Word, Chr CHR ''@''],
      Seqs [Str ''draft'', Plus Space, rx_an, Str ''email'']]"

definition rx_reminder :: rx where
  "rx_reminder = Alts [
      Seqs [Str ''remind'', Plus Space, Str ''me''],
      Seqs [Str ''set'', Plus Space, Opt (Chr CHR ''a''), Star Space, Str ''reminder''],
      Seqs [Str ''don'', Opt (Chr (CHR 0x27)), Str ''t'', Plus Space, Str ''let'', Plus Space,
            Str ''me'', Plus Space, Str ''forget'']]"

definition rx_create_doc :: rx where
  "rx_create_doc = Seqs [Str ''create'', Plus Space, rx_a,
      Alts [Str ''document'', Str ''doc'', Seqs [Str ''google'', Star Space, Str ''doc''],
            Str ''spreadsheet'', Str ''sheet'', Str ''presentation'', Str ''slide'']]"

definition rx_draft :: rx where
  "rx_draft = Alts [
      Seqs [Str ''draft'', Plus Space, rx_a,
            Alts [Str ''reply'', Str ''response'', Seqs [Str ''email'', Plus Space, Str ''body''],
                  Str ''message'']],
      Seqs [Str ''write'', Plus Space, rx_a,
            Lits [''summary'', ''report'', ''brief'', ''memo'', ''proposal'', ''document'', ''plan'']]]"

definition rx_summarize :: rx where
  "rx_summarize = Alts [Str ''summarize'',
      Seqs [Str ''take'', Plus Space, Str ''notes''],
      Seqs [Str ''document'', Plus Space, Lits [''this'', ''that'', ''the'']],
      Seqs [Str ''put'', Plus Space, Lits [''this'', ''that'', ''it''], Plus Space,
            Lits [''in'', ''into'', ''on''], Plus Space, rx_a,
            Lits [''doc'', ''document'', ''sheet'', ''spreadsheet'', ''drive'']]]"

definition rx_calendar :: rx where
  "rx_calendar = Lits [''calendar'', ''schedule'', ''event'', ''meeting'', ''today'',
      ''appointment'', ''tomorrow'', ''this week'', ''agenda'', ''busy'', ''free'', ''available'']"

definition rx_email :: rx where
  "rx_email = Lits [''email'', ''inbox'', ''mail'', ''gmail'', ''message from'', ''sent me'',
      ''unread'']"

definition rx_drive :: rx where
  "rx_drive = Alts [Str ''drive'', Str ''file'', Str ''document'', Str ''folder'',
      Seqs [Str ''find'', Star Dot, Str ''file''],
      Seqs [Str ''search'', Star Dot, Str ''drive''],
      Seqs [Str ''look'', Star Dot, Str ''drive'']]"

definition rx_web :: rx where
  "rx_web = Alts [Str ''search'', Seqs [Str ''look'', Plus Space, Str ''up''], Str ''find out'',
      Str ''what is'', Str ''who is'', Str ''latest'', Str ''news'', Str ''how to'',
      Str ''google'', Str ''browse'', Str ''research'']"

text \<open>The three patterns of \<^verbatim>\<open>_isMultiStepRequest\<close>.\<close>

definition rx_compound1 :: rx where
  "rx_compound1 = Seqs [WordB,
      Alts [Str ''and then'', Str ''then'', Str ''after that'', Str ''also'', Str ''next'',
            Str ''finally'', Seqs [Str ''first'', Star Dot, Str ''then'']],
      WordB]"

definition rx_compound2 :: rx where
  "rx_compound2 = Seqs [WordB, Lits [''research'', ''find'', ''look up''], WordB, Star Dot,
      WordB, Lits [''and'', ''then''], WordB, Star Dot,
      WordB, Lits [''send'', ''email'', ''create'', ''write'', ''draft'', ''summarize''], WordB]"

definition rx_compound3 :: rx where
  "rx_compound3 = Seqs [WordB, Lits [''check'', ''get'', ''read''], WordB, Star Dot,
      WordB, Lits [''and'', ''then''], WordB, Star Dot,
      WordB, Lits [''tell'', ''send'', ''update'', ''create''], WordB]"

definition isMultiStepRequest :: "string \<Rightarrow> bool" where
  "isMultiStepRequest message =
     (let lower = toLowerCase message in
      rtest False rx_compound1 lower \<or> rtest False rx_compound2 lower
      \<or> rtest False rx_compound3 lower)"

text \<open>
  The dispatch of \<^verbatim>\<open>think\<close>: the first handler it enters, for the brain as it is after
  \<^verbatim>\<open>initAgentLoop\<close>.  A pattern whose skill is absent or not ready is passed over.
  Every handler returns once entered, but the multi-step block: it returns the
  orchestrator's result or else runs the agent loop, and only with no result and no
  agent loop does \<^verbatim>\<open>think\<close> go on to the classification; \<open>MultiStep\<close> records that the
  block was entered.
\<close>

definition think_route :: "brain \<Rightarrow> skills \<Rightarrow> string \<Rightarrow> route" where
  "think_route b sk message =
     (let lower = toLowerCase message in
      if startsWith message ''/claude '' then ForceClaude
      else if startsWith message ''/gemini '' then ForceGemini
      else if startsWith message ''/agent '' then ForceAgent
      else if startsWith message ''/plan '' then ForcePlan
      else if rtest True rx_upscale lower \<and> geminiImage sk then Upscale
      else if (rtest True rx_ultra lower \<and> rtest True rx_image lower) \<and> geminiImage sk
        then UltraImage
      else if (rtest True rx_generate lower \<and> rtest True rx_image lower) \<and> geminiImage sk
        then StandardImage
      else if (rtest True rx_produce lower \<and> rtest True rx_video lower) \<and> geminiVideo sk
        then Video
      else if rtest False rx_weather lower \<and> weather sk then Weather
      else if rtest False rx_send_email lower \<and> googleWorkspaceReady sk then SendEmailIntent
      else if rtest False rx_reminder lower \<and> scheduler sk then Reminder
      else if rtest False rx_create_doc lower then ComposeDocument
      else if rtest False rx_draft lower then ComposeDraft
      else if rtest False rx_summarize lower then ComposeSummarize
      else if rtest False rx_calendar lower \<and> googleWorkspaceReady sk then ReadCalendar
      else if rtest False rx_email lower \<and> googleWorkspaceReady sk then ReadEmail
      else if rtest False rx_drive lower \<and> googleWorkspaceReady sk then ReadDrive
      else if rtest False rx_web lower \<and> braveSearch sk then WebSearch
      else if orchestrator b \<and> isMultiStepRequest message then MultiStep
      else Classify)"

text \<open>
  The router as the specification describes it: an ordered list of matchers, each a
  predicate on the message with its handler, run by one dispatch loop that stops at
  the first predicate that holds.  The predicate of a matcher is its pattern together
  with the presence of the skill its handler needs.
\<close>

definition matchers :: "brain \<Rightarrow> skills \<Rightarrow> ((string \<Rightarrow> bool) \<times> route) list" where
  "matchers b sk =
     [(\<lambda>m. startsWith m ''/claude '', ForceClaude),
      (\<lambda>m. startsWith m ''/gemini '', ForceGemini),
      (\<lambda>m. startsWith m ''/agent '', ForceAgent),
      (\<lambda>m. startsWith m ''/plan '', ForcePlan),
      (\<lambda>m. rtest True rx_upscale (toLowerCase m) \<and> geminiImage sk, Upscale),
      (\<lambda>m. (rtest True rx_ultra (toLowerCase m) \<and> rtest True rx_image (toLowerCase m))
            \<and> geminiImage sk, UltraImage),
      (\<lambda>m. (rtest True rx_generate (toLowerCase m) \<and> rtest True rx_image (toLowerCase m))
            \<and> geminiImage sk, StandardImage),
      (\<lambda>m. (rtest True rx_produce (toLowerCase m) \<and> rtest True rx_video (toLowerCase m))
            \<and> geminiVideo sk, Video),
      (\<lambda>m. rtest False rx_weather (toLowerCase m) \<and> weather sk, Weather),
      (\<lambda>m. rtest False rx_send_email (toLowerCase m) \<and> googleWorkspaceReady sk, SendEmailIntent),
      (\<lambda>m. rtest False rx_reminder (toLowerCase m) \<and> scheduler sk, Reminder),
      (\<lambda>m. rtest False rx_create_doc (toLowerCase m), ComposeDocument),
      (\<lambda>m. rtest False rx_draft (toLowerCase m), ComposeDraft),
      (\<lambda>m. rtest False rx_summarize (toLowerCase m), ComposeSummarize),
      (\<lambda>m. rtest False rx_calendar (toLowerCase m) \<and> googleWorkspaceReady sk, ReadCalendar),
      (\<lambda>m. rtest False rx_email (toLowerCase m) \<and> googleWorkspaceReady sk, ReadEmail),
      (\<lambda>m. rtest False rx_drive (toLowerCase m) \<and> googleWorkspaceReady sk, ReadDrive),
      (\<lambda>m. rtest False rx_web (toLowerCase m) \<and> braveSearch sk, WebSearch),
      (\<lambda>m. orchestrator b \<and> isMultiStepRequest m, MultiStep)]"

fun dispatch :: "((string \<Rightarrow> bool) \<times> route) list \<Rightarrow> string \<Rightarrow> route" where
  "dispatch [] m = Classify"
| "dispatch ((matches, handler) # rest) m = (if matches m then handler else dispatch rest m)"

section \<open>Sample environments and brains\<close>

text \<open>Concrete values at which the theorems below are instantiated.\<close>

definition quiet_world :: world where
  "quiet_world =
     \<lparr>clock = (\<lambda>_. 1700000000000),
      oauth = (\<lambda>_. Inl (new_Error ''Network Error'')),
      openai = (\<lambda>_. Inl (new_Error ''Network Error'')),
      prefetched = (\<lambda>_. []),
      toolDescriptions = (\<lambda>_. Inr None),
      gemini = (\<lambda>_. Inl (new_Error ''Network Error'')),
      geminiChat = (\<lambda>_. Inl (new_Error ''Network Error'')),
      classifier = (\<lambda>_. Inl (new_Error ''Network Error'')),
      parseEmail = (\<lambda>_. Inl (new_Error ''Network Error'')),
      sendEmail = (\<lambda>_. Inl (new_Error ''Network Error'')),
      JSON_parse = (\<lambda>_. Inl (new_Error ''Unexpected token'')),
      getRecentEmails = (\<lambda>_. Inl (new_Error ''Network Error'')),
      getTodayEvents = (\<lambda>_. Inl (new_Error ''Network Error'')),
      listRecentFiles = (\<lambda>_. Inl (new_Error ''Network Error''))\<rparr>"

definition sample_brain :: "string option \<Rightarrow> string option \<Rightarrow> brain" where
  "sample_brain access refresh =
     SmartBrain \<lparr>cfg_geminiApiKey = Some ''key'', cfg_openaiCodexToken = access,
                 cfg_openaiCodexRefresh = refresh\<rparr> ''You are MJ.''"

definition unauthorized :: js_error where
  "unauthorized = \<lparr>err_status = Some 401, err_code = None, err_server_message = None,
     err_message = ''Request failed with status code 401''\<rparr>"

definition fresh_token :: "int option \<Rightarrow> token_response" where
  "fresh_token secs = \<lparr>access_token = Some ''tok1'', refresh_token = None, expires_in = secs\<rparr>"

definition short_lived_world :: world where
  "short_lived_world = quiet_world\<lparr>oauth := \<lambda>_. Inr (fresh_token (Some 30)),
                                   openai := \<lambda>_. Inr (Some ''Done.'')\<rparr>"

definition long_lived_world :: world where
  "long_lived_world = quiet_world\<lparr>oauth := \<lambda>_. Inr (fresh_token (Some 3600)),
                                   openai := \<lambda>_. Inr (Some ''Done.'')\<rparr>"

definition expired_session_world :: world where
  "expired_session_world =
     quiet_world\<lparr>oauth := \<lambda>_. Inr (fresh_token (Some 3600)),
                 openai := \<lambda>_. Inl unauthorized\<rparr>"

definition inbox_data :: string where
  "inbox_data = ''=== RECENT EMAILS ==='' @ nl @ ''From: Sam - Invoice 42''"

definition fast_only_world :: world where
  "fast_only_world =
     quiet_world\<lparr>prefetched := \<lambda>_. inbox_data,
                 gemini := \<lambda>_. Inr (Some ''Sam sent invoice 42.''),
                 geminiChat := \<lambda>_. Inr (Some ''Hi!'')\<rparr>"

definition chat_only_world :: world where
  "chat_only_world =
     quiet_world\<lparr>prefetched := \<lambda>_. inbox_data,
                 geminiChat := \<lambda>_. Inr (Some ''Hi!'')\<rparr>"

definition action_world :: world where
  "action_world = quiet_world\<lparr>classifier := \<lambda>_. Inr (Some ('' Action'' @ nl))\<rparr>"

definition no_recipient_world :: world where
  "no_recipient_world =
     quiet_world\<lparr>parseEmail := \<lambda>_. Inr (Some ''Here is the JSON: {} Anything else?''),
                 JSON_parse := \<lambda>s. if s = ''{}'' then Inr [] else Inl (new_Error ''Unexpected token''),
                 sendEmail := \<lambda>_. Inr (Some ''Message id 1'')\<rparr>"

definition image_skills :: skills where
  "image_skills = \<lparr>geminiImage = True, geminiVideo = False, weather = False,
     googleWorkspaceReady = False, scheduler = False, braveSearch = False\<rparr>"

definition no_skills :: skills where
  "no_skills = \<lparr>geminiImage = False, geminiVideo = False, weather = False,
     googleWorkspaceReady = False, scheduler = False, braveSearch = False\<rparr>"

section \<open>Properties of the token lifecycle\<close>

lemma refresh_without_token:
  "\<not> truthy (openaiRefreshToken b) \<Longrightarrow>
   refreshAccessToken w b =
     (Inl (new_Error ''No OpenAI refresh token configured''), log RefreshInvoked b)"
  by (simp add: refreshAccessToken_def log_def Let_def)

lemma refresh_with_token:
  "truthy (openaiRefreshToken b) \<Longrightarrow>
   refreshAccessToken w b =
     (let b1 = log (PostOAuth (the (openaiRefreshToken b))) (log RefreshInvoked b) in
      case oauth w (trace b1) of
        Inl e \<Rightarrow>
          (Inl (new_Error (''OpenAI token refresh failed: '' @
             (if truthy (err_server_message e) then the (err_server_message e)
              else err_message e))), b1)
      | Inr r \<Rightarrow>
          (Inr (),
           b1\<lparr>openaiAccessToken := access_token r,
              openaiRefreshToken :=
                (if truthy (refresh_token r) then refresh_token r else openaiRefreshToken b1),
              tokenExpiresAt := clock w (trace b1) + lifetime r * 1000 - 60000\<rparr>))"
  by (simp add: refreshAccessToken_def log_def Let_def)

lemma new_Error_fields [simp]:
  "err_status (new_Error m) = None" "err_code (new_Error m) = None"
  "err_server_message (new_Error m) = None" "err_message (new_Error m) = m"
  by (simp_all add: new_Error_def)

lemma log_fields [simp]:
  "trace (log e b) = trace b @ [e]"
  "openaiAccessToken (log e b) = openaiAccessToken b"
  "openaiRefreshToken (log e b) = openaiRefreshToken b"
  "tokenExpiresAt (log e b) = tokenExpiresAt b"
  "geminiApiKey (log e b) = geminiApiKey b"
  "mcpBridge (log e b) = mcpBridge b"
  by (simp_all add: log_def)

text \<open>
  Claim C8.  With neither an access token nor a refresh token the call of the powerful
  backend fails with the configuration error and sends no request at all: the state and
  its log are unchanged, so nothing is retried.  With an access token but no refresh
  token, when a refresh is needed (the stored expiry has passed, or the main call was
  answered with 401), the refresh throws at once and its error leaves the call; the
  log shows the one entry into the refresh and no request.
\<close>

theorem credentials_missing_fail_fast:
  "(\<not> truthy (openaiAccessToken b) \<and> \<not> truthy (openaiRefreshToken b) \<longrightarrow>
      callOpenAI w b prompt =
        (Inl (new_Error ''No OpenAI credentials configured. Set OPENAI_CODEX_TOKEN and OPENAI_CODEX_REFRESH in .env''), b))
   \<and> (truthy (openaiAccessToken b) \<and> \<not> truthy (openaiRefreshToken b)
        \<and> tokenExpiresAt b \<le> clock w (trace b) \<longrightarrow>
      callOpenAI w b prompt =
        (Inl (new_Error ''No OpenAI refresh token configured''), log RefreshInvoked b))
   \<and> (\<not> truthy (openaiRefreshToken b) \<and> err_status e = Some 401 \<longrightarrow>
      callOpenAI_catch w b prompt e =
        (Inl (new_Error ''No OpenAI refresh token configured''), log RefreshInvoked b))"
  by (simp add: callOpenAI_def callOpenAI_try_def callOpenAI_catch_def getValidToken_def
        refresh_without_token)

theorem credentials_missing_fail_fast_witness:
  "callOpenAI quiet_world (sample_brain None None) ''hello'' =
     (Inl (new_Error ''No OpenAI credentials configured. Set OPENAI_CODEX_TOKEN and OPENAI_CODEX_REFRESH in .env''),
      sample_brain None None)
   \<and> callOpenAI quiet_world (sample_brain (Some ''tok0'') None) ''hello'' =
     (Inl (new_Error ''No OpenAI refresh token configured''),
      log RefreshInvoked (sample_brain (Some ''tok0'') None))
   \<and> callOpenAI_catch quiet_world (sample_brain (Some ''tok0'') None) ''hello'' unauthorized =
     (Inl (new_Error ''No OpenAI refresh token configured''),
      log RefreshInvoked (sample_brain (Some ''tok0'') None))"
  using credentials_missing_fail_fast [of "sample_brain None None" quiet_world "''hello''" unauthorized]
        credentials_missing_fail_fast [of "sample_brain (Some ''tok0'') None" quiet_world "''hello''" unauthorized]
  by (simp add: sample_brain_def SmartBrain_def truthy_def quiet_world_def unauthorized_def)

lemma refresh_trace:
  "trace (snd (refreshAccessToken w b)) =
     trace b @ RefreshInvoked #
       (if truthy (openaiRefreshToken b) then [PostOAuth (the (openaiRefreshToken b))] else [])"
  by (cases "truthy (openaiRefreshToken b)")
     (simp_all add: refresh_without_token refresh_with_token Let_def split: sum.split)








lemmas sample_defs = sample_brain_def SmartBrain_def truthy_def quiet_world_def
lemmas call_defs = callOpenAI_def callOpenAI_try_def callOpenAI_catch_def getValidToken_def
  refreshAccessToken_def log_def Let_def safePrompt_def maxPromptLen_def or_null_def lifetime_def

lemma getValidToken_valid:
  "truthy (openaiAccessToken b) \<Longrightarrow> clock w (trace b) < tokenExpiresAt b \<Longrightarrow>
   getValidToken w b = (Inr (openaiAccessToken b), b)"
  by (simp add: getValidToken_def)

lemma getValidToken_stale:
  assumes "\<not> truthy (openaiAccessToken b) \<or> tokenExpiresAt b \<le> clock w (trace b)"
      and "getValidToken w b = (Inr tok, b1)"
  shows "truthy (openaiRefreshToken b) \<and>
         (\<exists>resp. oauth w (trace b @ [RefreshInvoked, PostOAuth (the (openaiRefreshToken b))]) = Inr resp
            \<and> tok = access_token resp
            \<and> trace b1 = trace b @ [RefreshInvoked, PostOAuth (the (openaiRefreshToken b))]
            \<and> tokenExpiresAt b1 = clock w (trace b1) + lifetime resp * 1000 - 60000)"
proof (cases "truthy (openaiRefreshToken b)")
  case False
  then show ?thesis using assms
    by (auto simp: getValidToken_def refresh_without_token split: if_splits)
next
  case True
  then show ?thesis using assms
    by (auto simp: getValidToken_def refresh_with_token Let_def split: if_splits sum.splits)
qed

lemma getValidToken_trace:
  "trace (snd (getValidToken w b)) =
     trace b @
       (if \<not> truthy (openaiAccessToken b) \<and> \<not> truthy (openaiRefreshToken b) then []
        else if \<not> truthy (openaiAccessToken b) \<or> tokenExpiresAt b \<le> clock w (trace b)
          then RefreshInvoked #
            (if truthy (openaiRefreshToken b) then [PostOAuth (the (openaiRefreshToken b))] else [])
        else [])"
proof -
  have "trace (snd (case refreshAccessToken w b of
           (Inl e, b') \<Rightarrow> (Inl e, b')
         | (Inr u, b') \<Rightarrow> (Inr (openaiAccessToken b'), b'))) = trace (snd (refreshAccessToken w b))"
    by (cases "refreshAccessToken w b") (auto split: sum.split)
  then show ?thesis
    by (simp add: getValidToken_def refresh_trace)
qed

lemma callOpenAI_main_failed:
  assumes "getValidToken w b = (Inr tok, b1)"
      and "openai w (trace b1 @ [PostOpenAI tok (safePrompt prompt)]) = Inl e"
  shows "callOpenAI w b prompt =
           callOpenAI_catch w (log (PostOpenAI tok (safePrompt prompt)) b1) prompt e"
  using assms by (simp add: callOpenAI_def callOpenAI_try_def Let_def)

text \<open>
  Claim C4.  When the main call of the powerful backend is answered with status 401,
  the call layer enters the token refresh exactly once.  If the refresh fails (no
  refresh token, or a failed refresh request) its error leaves the call and no further
  request is made.  If it succeeds, exactly one retry is sent, with the new token, and
  the log ends there: the retry's answer is returned, and the retry's error, a second
  401 included, leaves the call as it is.
\<close>

theorem unauthorized_one_refresh_one_retry:
  assumes tok: "getValidToken w b = (Inr tok, bt)"
      and main: "openai w (trace bt @ [PostOpenAI tok (safePrompt prompt)]) = Inl e"
      and unauth: "err_status e = Some 401"
  shows "let b2 = log (PostOpenAI tok (safePrompt prompt)) bt;
             tr3 = trace b2 @ [RefreshInvoked, PostOAuth (the (openaiRefreshToken b2))]
         in (\<not> truthy (openaiRefreshToken b2) \<longrightarrow>
               callOpenAI w b prompt =
                 (Inl (new_Error ''No OpenAI refresh token configured''), log RefreshInvoked b2))
          \<and> (truthy (openaiRefreshToken b2) \<longrightarrow>
               (case oauth w tr3 of
                  Inl refreshErr \<Rightarrow>
                    (\<exists>m. fst (callOpenAI w b prompt) = Inl (new_Error m))
                    \<and> trace (snd (callOpenAI w b prompt)) = tr3
                | Inr resp \<Rightarrow>
                    trace (snd (callOpenAI w b prompt)) =
                      tr3 @ [PostOpenAI (access_token resp) (take 100000 prompt)]
                    \<and> fst (callOpenAI w b prompt) =
                        (case openai w (tr3 @ [PostOpenAI (access_token resp) (take 100000 prompt)]) of
                           Inl retryErr \<Rightarrow> Inl retryErr
                         | Inr answer \<Rightarrow> Inr (or_null answer))))"
proof -
  define b2 where "b2 = log (PostOpenAI tok (safePrompt prompt)) bt"
  have c: "callOpenAI w b prompt = callOpenAI_catch w b2 prompt e"
    unfolding b2_def by (rule callOpenAI_main_failed [OF tok main])
  have no_rt: "\<not> truthy (openaiRefreshToken b2) \<Longrightarrow>
      callOpenAI_catch w b2 prompt e =
        (Inl (new_Error ''No OpenAI refresh token configured''), log RefreshInvoked b2)"
    using unauth by (simp add: callOpenAI_catch_def refresh_without_token)
  have rt: "truthy (openaiRefreshToken b2) \<Longrightarrow>
      (case oauth w (trace b2 @ [RefreshInvoked, PostOAuth (the (openaiRefreshToken b2))]) of
         Inl refreshErr \<Rightarrow>
           (\<exists>m. fst (callOpenAI_catch w b2 prompt e) = Inl (new_Error m))
           \<and> trace (snd (callOpenAI_catch w b2 prompt e)) =
               trace b2 @ [RefreshInvoked, PostOAuth (the (openaiRefreshToken b2))]
       | Inr resp \<Rightarrow>
           trace (snd (callOpenAI_catch w b2 prompt e)) =
             (trace b2 @ [RefreshInvoked, PostOAuth (the (openaiRefreshToken b2))])
               @ [PostOpenAI (access_token resp) (take 100000 prompt)]
           \<and> fst (callOpenAI_catch w b2 prompt e) =
               (case openai w ((trace b2 @ [RefreshInvoked, PostOAuth (the (openaiRefreshToken b2))])
                                @ [PostOpenAI (access_token resp) (take 100000 prompt)]) of
                  Inl retryErr \<Rightarrow> Inl retryErr
                | Inr answer \<Rightarrow> Inr (or_null answer)))"
    using unauth
    by (auto simp: callOpenAI_catch_def refresh_with_token Let_def split: sum.splits)
  show ?thesis
    unfolding Let_def b2_def [symmetric] c using no_rt rt by blast
qed

theorem unauthorized_one_refresh_one_retry_witness:
  "callOpenAI expired_session_world
     ((sample_brain (Some ''tok0'') (Some ''ref0''))\<lparr>tokenExpiresAt := 1700000000001\<rparr>) ''hello'' =
     (Inl unauthorized,
      (sample_brain (Some ''tok1'') (Some ''ref0''))
        \<lparr>tokenExpiresAt := 1700003540000,
         trace := [PostOpenAI (Some ''tok0'') ''hello'', RefreshInvoked, PostOAuth ''ref0'',
                   PostOpenAI (Some ''tok1'') ''hello'']\<rparr>)"
  using unauthorized_one_refresh_one_retry [where w = expired_session_world
      and b = "(sample_brain (Some ''tok0'') (Some ''ref0''))\<lparr>tokenExpiresAt := 1700000000001\<rparr>"
      and bt = "(sample_brain (Some ''tok0'') (Some ''ref0''))\<lparr>tokenExpiresAt := 1700000000001\<rparr>"
      and tok = "Some ''tok0''" and prompt = "''hello''" and e = unauthorized]
  by (simp add: sample_defs call_defs fresh_token_def unauthorized_def expired_session_world_def)

section \<open>Properties of the fallback chain\<close>

lemma thinkWithGemini_returns:
  "\<exists>answer. fst (thinkWithGemini w b message ctx) = Inr answer"
  by (simp add: thinkWithGemini_def Let_def split: sum.split)

lemma fallbackToGemini_returns:
  "\<exists>answer. fst (fallbackToGemini w b message ctx pd) = Inr answer"
  by (simp add: fallbackToGemini_def thinkWithGemini_returns Let_def split: sum.split)

lemma thinkWithClaude_returns:
  "\<exists>answer. fst (thinkWithClaude w b message ctx) = Inr answer"
proof -
  define b1 where "b1 = log (Prefetch message) b"
  obtain r b2 where a: "thinkWithClaude_try w b1 message ctx (prefetched w (trace b1)) = (r, b2)"
    by (cases "thinkWithClaude_try w b1 message ctx (prefetched w (trace b1))")
  show ?thesis
    using a fallbackToGemini_returns [of w b2 message ctx "Some (prefetched w (trace b1))"]
    unfolding thinkWithClaude_def Let_def b1_def [symmetric]
    by (cases r) auto
qed

lemma thinkWithClaude_failed:
  assumes "\<not> (\<exists>t. fst (thinkWithClaude_try w (log (Prefetch message) b) message ctx
                        (prefetched w (trace (log (Prefetch message) b)))) = Inr (Some t) \<and> t \<noteq> [])"
  shows "thinkWithClaude w b message ctx =
           fallbackToGemini w
             (snd (thinkWithClaude_try w (log (Prefetch message) b) message ctx
                        (prefetched w (trace (log (Prefetch message) b)))))
             message ctx (Some (prefetched w (trace (log (Prefetch message) b))))"
proof -
  define b1 where "b1 = log (Prefetch message) b"
  obtain r b2 where a: "thinkWithClaude_try w b1 message ctx (prefetched w (trace b1)) = (r, b2)"
    by (cases "thinkWithClaude_try w b1 message ctx (prefetched w (trace b1))")
  show ?thesis
    using a assms
    unfolding thinkWithClaude_def Let_def b1_def [symmetric]
    by (cases r) (auto simp: truthy_def split: option.splits)
qed

section \<open>Properties of the classifier\<close>

lemma toUpperChar_letters:
  "toUpperChar c = CHR ''A'' \<longleftrightarrow> toLowerChar c = CHR ''a''"
  "toUpperChar c = CHR ''C'' \<longleftrightarrow> toLowerChar c = CHR ''c''"
  "toUpperChar c = CHR ''T'' \<longleftrightarrow> toLowerChar c = CHR ''t''"
  "toUpperChar c = CHR ''I'' \<longleftrightarrow> toLowerChar c = CHR ''i''"
  "toUpperChar c = CHR ''O'' \<longleftrightarrow> toLowerChar c = CHR ''o''"
  "toUpperChar c = CHR ''N'' \<longleftrightarrow> toLowerChar c = CHR ''n''"
  by (simp_all add: toUpperChar_def toLowerChar_def upper_chars_def lower_chars_def)

lemma upper_ACTION: "toUpperCase s = ''ACTION'' \<longleftrightarrow> toLowerCase s = ''action''"
  by (auto simp: toUpperCase_def toLowerCase_def map_eq_Cons_conv toUpperChar_letters)

text \<open>
  Claim C5.  The classifier always returns one of the two backend labels and never
  throws.  It returns the powerful backend exactly when the response has a text that,
  trimmed, is \<^verbatim>\<open>ACTION\<close> up to letter case; any other text, a response without the
  text field, and a failed request all give the fast backend.
\<close>

theorem classifier_fail_safe:
  "let out = classifyMessage w b message;
       response = classifier w (trace b @ [PostClassify message])
   in (fst out = Inr to_claude \<or> fst out = Inr to_gemini)
    \<and> (fst out = Inr to_claude) =
        (\<exists>t. response = Inr (Some t) \<and> toUpperCase (trim t) = ''ACTION'')
    \<and> (fst out = Inr to_claude) =
        (\<exists>t. response = Inr (Some t) \<and> toLowerCase (trim t) = ''action'')
    \<and> ((\<exists>error. response = Inl error) \<or> response = Inr None \<longrightarrow> fst out = Inr to_gemini)"
  unfolding upper_ACTION [symmetric]
  by (auto simp: classifyMessage_def Let_def split: sum.splits option.splits)

theorem classifier_fail_safe_witness:
  "fst (classifyMessage action_world (sample_brain None None) ''Debug this code'') = Inr to_claude
   \<and> fst (classifyMessage quiet_world (sample_brain None None) ''Debug this code'') = Inr to_gemini"
proof -
  have r: "classifier action_world (trace (sample_brain None None) @ [PostClassify ''Debug this code''])
          = Inr (Some ('' Action'' @ nl))"
    by (simp add: action_world_def quiet_world_def)
  have u: "toUpperCase (trim ('' Action'' @ nl)) = ''ACTION''"
    by code_simp
  have e: "classifier quiet_world (trace (sample_brain None None) @ [PostClassify ''Debug this code''])
          = Inl (new_Error ''Network Error'')"
    by (simp add: quiet_world_def)
  from classifier_fail_safe [of action_world "sample_brain None None" "''Debug this code''",
      unfolded Let_def] r u
  have a: "fst (classifyMessage action_world (sample_brain None None) ''Debug this code'') = Inr to_claude"
    by blast
  from classifier_fail_safe [of quiet_world "sample_brain None None" "''Debug this code''",
      unfolded Let_def] e
  have g: "fst (classifyMessage quiet_world (sample_brain None None) ''Debug this code'') = Inr to_gemini"
    by blast
  from a g show ?thesis ..
qed

section \<open>Properties of the send-email handler\<close>

lemma handleSendEmail_returns:
  "\<exists>reply. fst (handleSendEmail w b message) = Inr reply"
  by (simp add: handleSendEmail_def Let_def split: sum.split option.split)

lemma js_truthy_defined: "js_truthy v \<Longrightarrow> v = Some (the v)"
  by (cases v) simp_all

lemma handleSendEmail_sent:
  assumes "SendEmail to subj body \<in> set (trace (snd (handleSendEmail w b message)))"
      and "SendEmail to subj body \<notin> set (trace b)"
  shows "\<exists>text jsonMatch parsed.
           parseEmail w (trace (log (PostParseEmail message) b)) = Inr text
           \<and> rmatch0 False rx_json (or_empty text) = Some jsonMatch
           \<and> JSON_parse w jsonMatch = Inr parsed
           \<and> get_prop parsed ''to'' = Some to \<and> js_truthy (Some to)"
  using assms
  by (auto simp: handleSendEmail_def Let_def log_def js_truthy_defined [symmetric]
           split: sum.splits option.splits if_splits)

section \<open>Properties of the drive search term\<close>

lemma recent_not_stop: "\<not> rtest True rx_stop ''recent''"
  by code_simp

text \<open>
  Claim C7.  The derivation of the drive search term deletes the command verbs and stop
  words wherever they occur, inside longer words too, so for ``can you search my drive
  for invoices'' it yields ``voices'' and not ``invoices''.  For ``check drive'' it
  yields the default ``recent''.  For every message the result has at least three
  characters and is not one of the stop tokens.
\<close>

theorem drive_search_term_examples:
  "driveSearchTerm ''can you search my drive for invoices'' = ''voices''
   \<and> driveSearchTerm ''check drive'' = ''recent''
   \<and> 3 \<le> length (driveSearchTerm message)
   \<and> \<not> rtest True rx_stop (driveSearchTerm message)"
proof (intro conjI)
  show "driveSearchTerm ''can you search my drive for invoices'' = ''voices''"
    by code_simp
  show "driveSearchTerm ''check drive'' = ''recent''"
    by code_simp
  show "3 \<le> length (driveSearchTerm message)"
    by (simp add: driveSearchTerm_def Let_def)
  show "\<not> rtest True rx_stop (driveSearchTerm message)"
    by (simp add: driveSearchTerm_def Let_def recent_not_stop)
qed

section \<open>Properties of the video options\<close>

section \<open>Properties of the intent routing\<close>

lemma dispatch_first:
  "matches m \<Longrightarrow> \<forall>(g, h) \<in> set before. \<not> g m \<Longrightarrow>
   dispatch (before @ (matches, handler) # after) m = handler"
  by (induction before) auto

lemma think_route_dispatch:
  "think_route b sk message = dispatch (matchers b sk) message"
  by (simp only: think_route_def matchers_def Let_def dispatch.simps)

lemma ultra_cat_patterns:
  "\<not> startsWith ''generate an ultra image of a cat'' ''/claude ''"
  "\<not> startsWith ''generate an ultra image of a cat'' ''/gemini ''"
  "\<not> startsWith ''generate an ultra image of a cat'' ''/agent ''"
  "\<not> startsWith ''generate an ultra image of a cat'' ''/plan ''"
  "\<not> rtest True rx_upscale (toLowerCase ''generate an ultra image of a cat'')"
  "rtest True rx_ultra (toLowerCase ''generate an ultra image of a cat'')"
  "rtest True rx_image (toLowerCase ''generate an ultra image of a cat'')"
  "rtest True rx_generate (toLowerCase ''generate an ultra image of a cat'')"
  by code_simp+

lemma ultra_never_standard:
  "rtest True rx_ultra (toLowerCase message) \<and> rtest True rx_image (toLowerCase message) \<Longrightarrow>
   think_route b sk message \<noteq> StandardImage"
  by (simp add: think_route_def Let_def)

text \<open>
  Claim C2, as the code has it.  The dispatch of \<^verbatim>\<open>think\<close> is the dispatch loop over
  the ordered list of matchers, a matcher being a pattern together with the presence
  (or readiness) of the skill it needs: the handler selected is that of the first
  matcher that holds, whatever the later matchers are.  A message that matches the
  ultra-image pattern is never routed to the standard-image handler, and with the
  image skill present ``generate an ultra image of a cat'' is routed to the
  ultra-image handler.
\<close>

theorem first_match_wins:
  "think_route b sk message = dispatch (matchers b sk) message
   \<and> (\<forall>before matches handler after.
        matchers b sk = before @ (matches, handler) # after \<and> matches message
        \<and> (\<forall>(g, h) \<in> set before. \<not> g message)
        \<longrightarrow> think_route b sk message = handler)
   \<and> (rtest True rx_ultra (toLowerCase message) \<and> rtest True rx_image (toLowerCase message)
        \<longrightarrow> think_route b sk message \<noteq> StandardImage)
   \<and> (geminiImage sk \<longrightarrow> think_route b sk ''generate an ultra image of a cat'' = UltraImage)"
proof (intro conjI allI impI)
  show "think_route b sk message = dispatch (matchers b sk) message"
    by (rule think_route_dispatch)
next
  fix before matches handler after
  assume "matchers b sk = before @ (matches, handler) # after \<and> matches message
        \<and> (\<forall>(g, h) \<in> set before. \<not> g message)"
  then show "think_route b sk message = handler"
    using dispatch_first [of matches message before handler after]
    by (simp add: think_route_dispatch)
next
  assume "rtest True rx_ultra (toLowerCase message) \<and> rtest True rx_image (toLowerCase message)"
  then show "think_route b sk message \<noteq> StandardImage"
    by (rule ultra_never_standard)
next
  assume "geminiImage sk"
  then show "think_route b sk ''generate an ultra image of a cat'' = UltraImage"
    by (simp add: think_route_def Let_def ultra_cat_patterns)
qed

text \<open>
  The claim as stated fails: without the image skill the ultra-image pattern matches
  and its handler is not selected; the message goes on to the classification.
\<close>

theorem first_match_skipped_counterexample:
  "rtest True rx_ultra (toLowerCase ''generate an ultra image of a cat'')
   \<and> rtest True rx_image (toLowerCase ''generate an ultra image of a cat'')
   \<and> think_route (sample_brain None None) no_skills ''generate an ultra image of a cat'' = Classify"
  by code_simp

theorem first_match_wins_witness:
  "think_route (sample_brain None None) image_skills ''generate an ultra image of a cat'' = UltraImage
   \<and> dispatch (matchers (sample_brain None None) image_skills) ''generate an ultra image of a cat''
       = UltraImage"
proof -
  note w = first_match_wins [of "sample_brain None None" image_skills
      "''generate an ultra image of a cat''"]
  have g: "geminiImage image_skills" by (simp add: image_skills_def)
  have u: "think_route (sample_brain None None) image_skills ''generate an ultra image of a cat''
        = UltraImage"
    using w [THEN conjunct2, THEN conjunct2, THEN conjunct2] g by (rule mp)
  have d: "think_route (sample_brain None None) image_skills ''generate an ultra image of a cat''
        = dispatch (matchers (sample_brain None None) image_skills) ''generate an ultra image of a cat''"
    using w by (rule conjunct1)
  show ?thesis using u d by simp
qed

end
